theory Spec2Isabelle
  imports Complex_Main
begin

section \<open>JavaScript values\<close>

text \<open>
  The program is a browser application written in JavaScript. Numbers are modelled as exact
  rationals; an IEEE double is not exact, but on dyadic fractions of a few bits, such as
  the temperatures of the rounding examples below, the two agree. A numeric property read
  from a JSON payload is a number or absent (\<open>undefined\<close>); arithmetic on \<open>undefined\<close>
  gives \<open>NaN\<close>. The only exception the modelled code can raise is the \<open>TypeError\<close> of
  a property read on \<open>undefined\<close>.
\<close>

datatype js_error = TypeError

datatype jsnum = Num rat | NaN | Undefined

text \<open>\<^verbatim>\<open>x || 0\<close> on a number-or-absent value: \<open>undefined\<close>, \<open>NaN\<close> and \<open>0\<close> are falsy.\<close>

definition orZero :: "jsnum \<Rightarrow> rat" where
  "orZero v = (case v of Num x \<Rightarrow> x | NaN \<Rightarrow> 0 | Undefined \<Rightarrow> 0)"

text \<open>\<^verbatim>\<open>x * c\<close> and \<^verbatim>\<open>x / c\<close> for a numeric literal \<open>c\<close>.\<close>

definition times_js :: "jsnum \<Rightarrow> rat \<Rightarrow> jsnum" where
  "times_js v c = (case v of Num x \<Rightarrow> Num (x * c) | NaN \<Rightarrow> NaN | Undefined \<Rightarrow> NaN)"

definition divide_js :: "jsnum \<Rightarrow> rat \<Rightarrow> jsnum" where
  "divide_js v c = (case v of Num x \<Rightarrow> Num (x / c) | NaN \<Rightarrow> NaN | Undefined \<Rightarrow> NaN)"

text \<open>\<^verbatim>\<open>x > c\<close>, \<^verbatim>\<open>x < c\<close>, \<^verbatim>\<open>x >= c\<close>: false on \<open>NaN\<close> and on \<open>undefined\<close>.\<close>

definition gt_js :: "jsnum \<Rightarrow> rat \<Rightarrow> bool" where
  "gt_js v c = (case v of Num x \<Rightarrow> x > c | NaN \<Rightarrow> False | Undefined \<Rightarrow> False)"

definition lt_js :: "jsnum \<Rightarrow> rat \<Rightarrow> bool" where
  "lt_js v c = (case v of Num x \<Rightarrow> x < c | NaN \<Rightarrow> False | Undefined \<Rightarrow> False)"


section \<open>Normalized records and the ensemble\<close>

record weather_fields =
  temperature :: jsnum
  feelsLike :: jsnum
  humidity :: jsnum
  pressure :: jsnum
  windSpeed :: jsnum
  windDirection :: jsnum
  visibility :: jsnum
  uvIndex :: jsnum
  cloudCover :: jsnum
  precipitationChance :: jsnum
  description :: "string option"
  icon :: string

text \<open>What a \<open>normalize...Data\<close> function returns.\<close>

record observation = weather_fields +
  source :: string
  timestamp :: jsnum

text \<open>The object literal \<open>ensemble\<close> of \<open>createEnsembleWeather\<close>.\<close>

record ensemble = weather_fields +
  sources :: "string list"

text \<open>
  \<open>weatherData.current\<close>: \<open>null\<close>, the only source's record, or the ensemble object.
\<close>

datatype current_weather = Null | Single observation | Ensemble ensemble




text \<open>The fields a reader of \<open>weatherData.current\<close> sees; \<open>None\<close> when it is \<open>null\<close>.\<close>

definition fields_of :: "current_weather \<Rightarrow> weather_fields option" where
  "fields_of c = (case c of Null \<Rightarrow> None
     | Single s \<Rightarrow> Some (weather_fields.truncate s)
     | Ensemble e \<Rightarrow> Some (weather_fields.truncate e))"

section \<open>Provider payloads and their normalizers\<close>

text \<open>
  A payload is the parsed JSON of a provider. A nested object that may be absent is an
  \<open>option\<close>: reading a property of an absent object raises \<open>TypeError\<close>.
\<close>

record owm_main =
  main_temp :: jsnum
  main_feels_like :: jsnum
  main_humidity :: jsnum
  main_pressure :: jsnum

record owm_wind =
  wind_speed :: jsnum
  wind_deg :: jsnum

record owm_clouds =
  clouds_all :: jsnum

record owm_condition =
  condition_description :: "string option"
  condition_id :: "int option"

record owm_payload =
  main :: "owm_main option"
  wind :: "owm_wind option"
  owm_visibility :: jsnum
  clouds :: "owm_clouds option"
  weather :: "owm_condition list option"
  dt :: jsnum

record wb_condition =
  wb_description :: "string option"
  wb_code :: "int option"

record wb_payload =
  temp :: jsnum
  app_temp :: jsnum
  rh :: jsnum
  pres :: jsnum
  wind_spd :: jsnum
  wind_dir :: jsnum
  vis :: jsnum
  uv :: jsnum
  wb_clouds :: jsnum
  wb_weather :: "wb_condition option"

record om_current =
  temperature_2m :: jsnum
  apparent_temperature :: jsnum
  relative_humidity_2m :: jsnum
  pressure_msl :: jsnum
  wind_speed_10m :: jsnum
  wind_direction_10m :: jsnum
  cloud_cover :: jsnum
  precipitation :: jsnum
  weather_code :: "int option"

text \<open>
  \<open>CONFIG.WEATHER_CONDITIONS\<close> of config.js, the icon of each condition code. The icons
  are emoji in the source; here each is written by an ASCII name.
\<close>

definition WEATHER_CONDITIONS :: "(int \<times> string) list" where
  "WEATHER_CONDITIONS =
    [(200, ''thunderstorm''), (201, ''thunderstorm''), (202, ''thunderstorm''),
     (210, ''lightning''), (211, ''thunderstorm''), (212, ''thunderstorm''),
     (221, ''thunderstorm''), (230, ''thunderstorm''), (231, ''thunderstorm''),
     (232, ''thunderstorm''),
     (300, ''sun_rain''), (301, ''sun_rain''), (302, ''sun_rain''), (310, ''sun_rain''),
     (311, ''sun_rain''), (312, ''sun_rain''), (313, ''sun_rain''), (314, ''sun_rain''),
     (321, ''sun_rain''),
     (500, ''rain''), (501, ''rain''), (502, ''rain''), (503, ''rain''), (504, ''rain''),
     (511, ''snow_cloud''), (520, ''sun_rain''), (521, ''sun_rain''), (522, ''sun_rain''),
     (531, ''sun_rain''),
     (600, ''snow_cloud''), (601, ''snow_cloud''), (602, ''snowflake''),
     (611, ''snow_cloud''), (612, ''snow_cloud''), (613, ''snow_cloud''),
     (615, ''snow_cloud''), (616, ''snow_cloud''), (620, ''snow_cloud''),
     (621, ''snow_cloud''), (622, ''snowflake''),
     (701, ''fog''), (711, ''dash''), (721, ''fog''), (731, ''dash''), (741, ''fog''),
     (751, ''dash''), (761, ''dash''), (762, ''volcano''), (771, ''dash''),
     (781, ''tornado''),
     (800, ''sun''), (801, ''sun_small_cloud''), (802, ''sun_behind_cloud''),
     (803, ''sun_large_cloud''), (804, ''cloud'')]"

text \<open>\<^verbatim>\<open>CONFIG.WEATHER_CONDITIONS[code]?.icon || <sun behind cloud>\<close>\<close>

definition getWeatherIcon :: "int option \<Rightarrow> string" where
  "getWeatherIcon code =
     (case code of None \<Rightarrow> ''sun_behind_cloud''
      | Some c \<Rightarrow> (case map_of WEATHER_CONDITIONS c of
                    None \<Rightarrow> ''sun_behind_cloud'' | Some i \<Rightarrow> i))"

definition getOpenMeteoDescription :: "int option \<Rightarrow> string" where
  "getOpenMeteoDescription code =
     (case code of None \<Rightarrow> ''Unknown''
      | Some c \<Rightarrow> (case map_of
          [(0, ''Clear sky''), (1, ''Mainly clear''), (2, ''Partly cloudy''),
           (3, ''Overcast''), (45, ''Fog''), (48, ''Depositing rime fog''),
           (51, ''Light drizzle''), (53, ''Moderate drizzle''), (55, ''Dense drizzle''),
           (61, ''Light rain''), (63, ''Moderate rain''), (65, ''Heavy rain''),
           (71, ''Light snow''), (73, ''Moderate snow''), (75, ''Heavy snow''),
           (95, ''Thunderstorm''), (96, ''Thunderstorm with light hail''),
           (99, ''Thunderstorm with heavy hail'')] (c::int) of
        None \<Rightarrow> ''Unknown'' | Some d \<Rightarrow> d))"

definition getOpenMeteoIcon :: "int option \<Rightarrow> string" where
  "getOpenMeteoIcon code =
     (case code of None \<Rightarrow> ''sun_behind_cloud''
      | Some c \<Rightarrow> (case map_of
          [(0, ''sun''), (1, ''sun_small_cloud''), (2, ''sun_behind_cloud''),
           (3, ''cloud''), (45, ''fog''), (48, ''fog''),
           (51, ''sun_rain''), (53, ''sun_rain''), (55, ''sun_rain''),
           (61, ''rain''), (63, ''rain''), (65, ''rain''),
           (71, ''snow_cloud''), (73, ''snow_cloud''), (75, ''snowflake''),
           (95, ''thunderstorm''), (96, ''thunderstorm''),
           (99, ''thunderstorm'')] (c::int) of
        None \<Rightarrow> ''sun_behind_cloud'' | Some i \<Rightarrow> i))"

definition normalizeOpenWeatherMapData :: "owm_payload \<Rightarrow> js_error + observation" where
  "normalizeOpenWeatherMapData data =
     (case main data of None \<Rightarrow> Inl TypeError | Some m \<Rightarrow>
     (case wind data of None \<Rightarrow> Inl TypeError | Some w \<Rightarrow>
     (case clouds data of None \<Rightarrow> Inl TypeError | Some c \<Rightarrow>
     (case weather data of None \<Rightarrow> Inl TypeError | Some conds \<Rightarrow>
     (case conds of [] \<Rightarrow> Inl TypeError | cond # _ \<Rightarrow>
        Inr \<lparr>
          temperature = main_temp m,
          feelsLike = main_feels_like m,
          humidity = main_humidity m,
          pressure = main_pressure m,
          windSpeed = times_js (wind_speed w) (36 / 10),
          windDirection = wind_deg w,
          visibility = divide_js (owm_visibility data) 1000,
          uvIndex = Num 0,
          cloudCover = clouds_all c,
          precipitationChance = Num 0,
          description = condition_description cond,
          icon = getWeatherIcon (condition_id cond),
          source = ''OpenWeatherMap'',
          timestamp = dt data \<rparr>)))))"

text \<open>
  The Weatherbit and Open-Meteo normalizers read the clock: \<open>now\<close> is the value of
  \<^verbatim>\<open>Date.now()\<close> (milliseconds) at the call. The argument of the Weatherbit normalizer is
  \<^verbatim>\<open>currentData.data[0]\<close>, absent when the provider's list is empty.
\<close>

definition normalizeWeatherbitData :: "rat \<Rightarrow> wb_payload option \<Rightarrow> js_error + observation" where
  "normalizeWeatherbitData now data' =
     (case data' of None \<Rightarrow> Inl TypeError | Some data \<Rightarrow>
     (case wb_weather data of None \<Rightarrow> Inl TypeError | Some cond \<Rightarrow>
        Inr \<lparr>
          temperature = temp data,
          feelsLike = app_temp data,
          humidity = rh data,
          pressure = pres data,
          windSpeed = times_js (wind_spd data) (36 / 10),
          windDirection = wind_dir data,
          visibility = vis data,
          uvIndex = Num (orZero (uv data)),
          cloudCover = wb_clouds data,
          precipitationChance = Num 0,
          description = wb_description cond,
          icon = getWeatherIcon (wb_code cond),
          source = ''Weatherbit'',
          timestamp = Num (now / 1000) \<rparr>))"

text \<open>The argument is the whole Open-Meteo response; its \<open>current\<close> object may be absent.\<close>

type_synonym 'v series = "string \<rightharpoonup> 'v list"

record 'v om_payload =
  om_current :: "om_current option"
  om_hourly :: "'v series option"
  om_daily :: "'v series option"

definition normalizeOpenMeteoData :: "rat \<Rightarrow> 'v om_payload \<Rightarrow> js_error + observation" where
  "normalizeOpenMeteoData now data =
     (case om_current data of None \<Rightarrow> Inl TypeError | Some cur \<Rightarrow>
        Inr \<lparr>
          temperature = temperature_2m cur,
          feelsLike = apparent_temperature cur,
          humidity = relative_humidity_2m cur,
          pressure = pressure_msl cur,
          windSpeed = wind_speed_10m cur,
          windDirection = wind_direction_10m cur,
          visibility = Num 10,
          uvIndex = Num 0,
          cloudCover = cloud_cover cur,
          precipitationChance = Num (orZero (precipitation cur)),
          description = Some (getOpenMeteoDescription (weather_code cur)),
          icon = getOpenMeteoIcon (weather_code cur),
          source = ''Open-Meteo'',
          timestamp = Num (now / 1000) \<rparr>)"

section \<open>Forecast series\<close>

text \<open>
  The \<open>hourly\<close> and \<open>daily\<close> objects of Open-Meteo hold one array per quantity, of JSON
  values kept opaque (\<open>'v\<close>). Reading an index of an absent array raises; an index past
  the end reads \<open>undefined\<close>.
\<close>

definition at_index :: "'v list option \<Rightarrow> nat \<Rightarrow> js_error + 'v option" where
  "at_index arr i =
     (case arr of None \<Rightarrow> Inl TypeError
      | Some xs \<Rightarrow> Inr (if i < length xs then Some (xs ! i) else None))"

record 'v hourly_slot =
  hr_time :: "'v option"
  hr_temp :: "'v option"
  hr_feels_like :: "'v option"
  hr_humidity :: "'v option"
  hr_precipitation_prob :: "'v option"
  hr_weather_code :: "'v option"
  hr_wind_speed :: "'v option"
  hr_uv_index :: "'v option"

record 'v daily_slot =
  dy_date :: "'v option"
  dy_max_temp :: "'v option"
  dy_min_temp :: "'v option"
  dy_weather_code :: "'v option"
  dy_precipitation_sum :: "'v option"
  dy_wind_speed_max :: "'v option"
  dy_uv_index_max :: "'v option"
  dy_precipitation_probability_max :: "'v option"

text \<open>The body of a counting \<open>for\<close> loop that pushes one entry per index, or raises.\<close>

fun push_each :: "(nat \<Rightarrow> js_error + 'a) \<Rightarrow> nat list \<Rightarrow> js_error + 'a list" where
  "push_each f [] = Inr []"
| "push_each f (i # is) =
     (case f i of Inl e \<Rightarrow> Inl e
      | Inr x \<Rightarrow> (case push_each f is of Inl e \<Rightarrow> Inl e | Inr xs \<Rightarrow> Inr (x # xs)))"

definition hourly_entry :: "'v series \<Rightarrow> nat \<Rightarrow> js_error + 'v hourly_slot" where
  "hourly_entry h i =
     (case at_index (h ''time'') i of Inl e \<Rightarrow> Inl e | Inr a \<Rightarrow>
     (case at_index (h ''temperature_2m'') i of Inl e \<Rightarrow> Inl e | Inr b \<Rightarrow>
     (case at_index (h ''apparent_temperature'') i of Inl e \<Rightarrow> Inl e | Inr c \<Rightarrow>
     (case at_index (h ''relative_humidity_2m'') i of Inl e \<Rightarrow> Inl e | Inr d \<Rightarrow>
     (case at_index (h ''precipitation_probability'') i of Inl e \<Rightarrow> Inl e | Inr p \<Rightarrow>
     (case at_index (h ''weather_code'') i of Inl e \<Rightarrow> Inl e | Inr w \<Rightarrow>
     (case at_index (h ''wind_speed_10m'') i of Inl e \<Rightarrow> Inl e | Inr s \<Rightarrow>
     (case at_index (h ''uv_index'') i of Inl e \<Rightarrow> Inl e | Inr u \<Rightarrow>
        Inr \<lparr> hr_time = a, hr_temp = b, hr_feels_like = c, hr_humidity = d,
              hr_precipitation_prob = p, hr_weather_code = w, hr_wind_speed = s,
              hr_uv_index = u \<rparr>))))))))"

definition processOpenMeteoHourly :: "'v om_payload \<Rightarrow> js_error + 'v hourly_slot list" where
  "processOpenMeteoHourly data =
     (case om_hourly data of None \<Rightarrow> Inl TypeError | Some h \<Rightarrow>
     (case h ''time'' of None \<Rightarrow> Inl TypeError
      | Some ts \<Rightarrow> push_each (hourly_entry h) [0 ..< min 24 (length ts)]))"

definition daily_entry :: "'v series \<Rightarrow> nat \<Rightarrow> js_error + 'v daily_slot" where
  "daily_entry d i =
     (case at_index (d ''time'') i of Inl e \<Rightarrow> Inl e | Inr a \<Rightarrow>
     (case at_index (d ''temperature_2m_max'') i of Inl e \<Rightarrow> Inl e | Inr b \<Rightarrow>
     (case at_index (d ''temperature_2m_min'') i of Inl e \<Rightarrow> Inl e | Inr c \<Rightarrow>
     (case at_index (d ''weather_code'') i of Inl e \<Rightarrow> Inl e | Inr w \<Rightarrow>
     (case at_index (d ''precipitation_sum'') i of Inl e \<Rightarrow> Inl e | Inr p \<Rightarrow>
     (case at_index (d ''wind_speed_10m_max'') i of Inl e \<Rightarrow> Inl e | Inr s \<Rightarrow>
     (case at_index (d ''uv_index_max'') i of Inl e \<Rightarrow> Inl e | Inr u \<Rightarrow>
     (case at_index (d ''precipitation_probability_max'') i of Inl e \<Rightarrow> Inl e | Inr q \<Rightarrow>
        Inr \<lparr> dy_date = a, dy_max_temp = b, dy_min_temp = c, dy_weather_code = w,
              dy_precipitation_sum = p, dy_wind_speed_max = s, dy_uv_index_max = u,
              dy_precipitation_probability_max = q \<rparr>))))))))"

definition processOpenMeteoDaily :: "'v om_payload \<Rightarrow> js_error + 'v daily_slot list" where
  "processOpenMeteoDaily data =
     (case om_daily data of None \<Rightarrow> Inl TypeError | Some d \<Rightarrow>
     (case d ''time'' of None \<Rightarrow> Inl TypeError
      | Some ts \<Rightarrow> push_each (daily_entry d) [0 ..< min 7 (length ts)]))"

section \<open>One cycle: the settled fetches and \<open>weatherData\<close>\<close>

text \<open>An outcome of \<^verbatim>\<open>Promise.allSettled\<close>; the reason of a rejection is never read.\<close>

datatype 'a settled = Fulfilled 'a | Rejected

text \<open>
  The values the five fetches resolve to. The \<open>forecast\<close> member of the OpenWeatherMap
  value is never read and is left out. A native Weatherbit forecast entry is opaque (\<open>'w\<close>).
\<close>

record owm_value =
  owm_value_current :: owm_payload

record 'w wb_value =
  wb_value_current :: "wb_payload option"
  wb_value_daily :: "'w list option"
  wb_value_hourly :: "'w list option"

record 'v om_value =
  om_value_data :: "'v om_payload"

record aq_main =
  aqi :: jsnum

record aq_reading =
  aq_main :: "aq_main option"
  us_aqi :: jsnum

record air_quality =
  aq_source :: string
  aq_data :: "aq_reading option"

text \<open>
  An alert of the feed: the display looks for its fields under \<open>properties\<close> when the
  alert has that member, and on the alert itself otherwise.
\<close>

record alert_fields =
  headline :: "string option"
  event :: "string option"
  title :: "string option"
  alert_description :: "string option"
  instruction :: "string option"
  summary :: "string option"
  severity :: "string option"

record alert = alert_fields +
  properties :: "alert_fields option"

record alerts_value =
  alerts_value_alerts :: "alert list"

record ('w, 'v) results =
  owmResult :: "owm_value settled"
  weatherbitResult :: "'w wb_value settled"
  openMeteoResult :: "'v om_value settled"
  aqResult :: "air_quality settled"
  alertsResult :: "alerts_value settled"

text \<open>An entry of a merged series: a native Weatherbit entry or a slot derived from Open-Meteo.\<close>

datatype ('w, 's) forecast_entry = Native 'w | Derived 's

record ('w, 'v) weather_data =
  current :: current_weather
  hourly :: "('w, 'v hourly_slot) forecast_entry list"
  daily :: "('w, 'v daily_slot) forecast_entry list"
  alerts :: "alert list"
  airQuality :: "air_quality option"

text \<open>The two \<open>if ... else if\<close> statements of \<open>processEnsembleForecasts\<close>.\<close>

definition combineHourly ::
  "('w, 'v) results \<Rightarrow> js_error + ('w, 'v hourly_slot) forecast_entry list" where
  "combineHourly rs =
     (let fallback = (case openMeteoResult rs of
                        Fulfilled om \<Rightarrow>
                          (case processOpenMeteoHourly (om_value_data om) of
                             Inl e \<Rightarrow> Inl e | Inr slots \<Rightarrow> Inr (map Derived slots))
                      | Rejected \<Rightarrow> Inr [])
      in case weatherbitResult rs of
           Fulfilled wb \<Rightarrow>
             (case wb_value_hourly wb of
                Some hs \<Rightarrow> Inr (map Native (take 24 hs))
              | None \<Rightarrow> fallback)
         | Rejected \<Rightarrow> fallback)"

definition combineDaily ::
  "('w, 'v) results \<Rightarrow> js_error + ('w, 'v daily_slot) forecast_entry list" where
  "combineDaily rs =
     (let fallback = (case openMeteoResult rs of
                        Fulfilled om \<Rightarrow>
                          (case processOpenMeteoDaily (om_value_data om) of
                             Inl e \<Rightarrow> Inl e | Inr slots \<Rightarrow> Inr (map Derived slots))
                      | Rejected \<Rightarrow> Inr [])
      in case weatherbitResult rs of
           Fulfilled wb \<Rightarrow>
             (case wb_value_daily wb of
                Some ds \<Rightarrow> Inr (map Native (take 7 ds))
              | None \<Rightarrow> fallback)
         | Rejected \<Rightarrow> fallback)"

text \<open>
  A function that assigns to \<open>weatherData\<close> and may raise returns the data as it stands
  when it ends, with the exception if one was raised.
\<close>

definition processEnsembleForecasts ::
  "('w, 'v) results \<Rightarrow> ('w, 'v) weather_data \<Rightarrow> ('w, 'v) weather_data \<times> js_error option" where
  "processEnsembleForecasts rs wd =
     (let wd0 = wd\<lparr> hourly := [], daily := [] \<rparr>
      in case combineHourly rs of
           Inl e \<Rightarrow> (wd0, Some e)
         | Inr hs \<Rightarrow>
             (let wd1 = wd0\<lparr> hourly := hs \<rparr>
              in case combineDaily rs of
                   Inl e \<Rightarrow> (wd1, Some e)
                 | Inr ds \<Rightarrow> (wd1\<lparr> daily := ds \<rparr>, None)))"




section \<open>Display updates\<close>

text \<open>
  The display functions write to elements of the page, taken to exist. Each is modelled by
  the content it computes: \<open>None\<close> when it returns before writing, which leaves the
  element as it was. Strings are ASCII; letter case changes on the 26 letters.
\<close>

definition toLowerCase :: "string \<Rightarrow> string" where
  "toLowerCase s =
     map (\<lambda>c. case map_of (zip ''ABCDEFGHIJKLMNOPQRSTUVWXYZ''
                                   ''abcdefghijklmnopqrstuvwxyz'') c of
                 Some l \<Rightarrow> l | None \<Rightarrow> c) s"



text \<open>\<open>CONFIG.AQI_LEVELS\<close> (label and advice) and \<open>getAQILevel\<close>.\<close>

definition AQI_LEVELS :: "(rat \<times> string \<times> string) list" where
  "AQI_LEVELS =
    [(0, ''Good'', ''Air quality is great! Perfect for outdoor activities.''),
     (1, ''Fair'', ''Air quality is acceptable for most people.''),
     (2, ''Moderate'',
         ''Sensitive individuals should consider limiting outdoor activities.''),
     (3, ''Poor'', ''Everyone should limit outdoor activities.''),
     (4, ''Very Poor'', ''Avoid outdoor activities. Keep windows closed.'')]"

definition le_js :: "jsnum \<Rightarrow> rat \<Rightarrow> bool" where
  "le_js v c = (case v of Num x \<Rightarrow> x \<le> c | NaN \<Rightarrow> False | Undefined \<Rightarrow> False)"

definition getAQILevel :: "jsnum \<Rightarrow> string \<times> string" where
  "getAQILevel a =
     (if le_js a 50 then
        (''Good'', ''Air quality is great! Perfect for outdoor activities.'')
      else if le_js a 100 then (''Moderate'', ''Air quality is acceptable for most people.'')
      else if le_js a 150 then
        (''Unhealthy for Sensitive Groups'',
         ''Sensitive individuals should limit outdoor activities.'')
      else if le_js a 200 then (''Unhealthy'', ''Everyone should limit outdoor activities.'')
      else if le_js a 300 then
        (''Very Unhealthy'', ''Avoid outdoor activities. Keep windows closed.'')
      else (''Hazardous'', ''Emergency conditions. Stay indoors.''))"

record aq_display =
  aqi_value :: "rat option"
  aqi_label :: string
  aqi_advice :: string

text \<open>
  The three \<open>updateElement\<close> calls: \<^verbatim>\<open>aqi || '--'\<close>, \<^verbatim>\<open>aqiLevel?.label || 'Unknown'\<close>,
  \<^verbatim>\<open>aqiLevel?.advice || 'Air quality data unavailable'\<close>.
\<close>

definition aq_elements :: "jsnum \<Rightarrow> (string \<times> string) option \<Rightarrow> aq_display" where
  "aq_elements a level =
     \<lparr> aqi_value = (if orZero a = 0 then None else Some (orZero a)),
       aqi_label = (case level of None \<Rightarrow> ''Unknown'' | Some (l, _) \<Rightarrow> l),
       aqi_advice = (case level of None \<Rightarrow> ''Air quality data unavailable''
                     | Some (_, adv) \<Rightarrow> adv) \<rparr>"

definition updateAirQualityDisplay :: "air_quality option \<Rightarrow> js_error + aq_display option" where
  "updateAirQualityDisplay airQuality' =
     (case airQuality' of None \<Rightarrow> Inr None
      | Some aq \<Rightarrow>
          if aq_source aq = ''openweathermap'' then
            (case aq_data aq of None \<Rightarrow> Inl TypeError | Some d \<Rightarrow>
            (case aq_main d of None \<Rightarrow> Inl TypeError | Some m \<Rightarrow>
               Inr (Some (aq_elements (aqi m)
                  (case aqi m of Num x \<Rightarrow> map_of AQI_LEVELS (x - 1)
                   | NaN \<Rightarrow> None | Undefined \<Rightarrow> None)))))
          else if aq_source aq = ''open-meteo'' then
            (case aq_data aq of None \<Rightarrow> Inl TypeError | Some d \<Rightarrow>
               Inr (Some (aq_elements (us_aqi d) (Some (getAQILevel (us_aqi d))))))
          else Inr (Some (aq_elements Undefined None)))"

text \<open>
  The tips of \<open>updateHealthTips\<close>, one constructor per message of the source; the UV tip
  carries the index it prints.
\<close>

datatype tip =
  UVTip rat
  | HighTemperatureTip
  | FreezingTip
  | HighHumidityTip
  | LowHumidityTip
  | PoorAirQualityTip
  | StrongWindTip
  | GreatWeatherTip

text \<open>The air-quality rule: the block guarded by \<^verbatim>\<open>airQuality && airQuality.data\<close>.\<close>

definition airQualityTips :: "air_quality option \<Rightarrow> js_error + tip list" where
  "airQualityTips airQuality' =
     (case airQuality' of None \<Rightarrow> Inr []
      | Some aq \<Rightarrow>
          (case aq_data aq of None \<Rightarrow> Inr []
           | Some d \<Rightarrow>
               (case (if aq_source aq = ''openweathermap''
                      then (case aq_main d of None \<Rightarrow> Inl TypeError | Some m \<Rightarrow> Inr (aqi m))
                      else Inr (us_aqi d)) of
                  Inl e \<Rightarrow> Inl e
                | Inr a \<Rightarrow> Inr (if gt_js a 100 then [PoorAirQualityTip] else []))))"

definition updateHealthTips ::
  "current_weather \<Rightarrow> air_quality option \<Rightarrow> js_error + tip list option" where
  "updateHealthTips weather' airQuality' =
     (case fields_of weather' of None \<Rightarrow> Inr None
      | Some w \<Rightarrow>
          (let uv = orZero (uvIndex w);
               tips1 = (if uv \<ge> 3 then [UVTip uv] else []);
               tips2 = tips1 @ (if gt_js (temperature w) 30 then [HighTemperatureTip]
                                else if lt_js (temperature w) 0 then [FreezingTip] else []);
               tips3 = tips2 @ (if gt_js (humidity w) 70 then [HighHumidityTip]
                                else if lt_js (humidity w) 30 then [LowHumidityTip] else [])
           in case airQualityTips airQuality' of
                Inl e \<Rightarrow> Inl e
              | Inr aqTips \<Rightarrow>
                  (let tips4 = tips3 @ aqTips;
                       tips5 = tips4 @ (if gt_js (windSpeed w) 25 then [StrongWindTip] else [])
                   in Inr (Some (if length tips5 = 0 then [GreatWeatherTip] else tips5)))))"

subsection \<open>Alerts\<close>

text \<open>\<^verbatim>\<open>a || b || ... || fallback\<close> on strings that may be absent: the first non-empty one.\<close>

fun first_truthy :: "string option list \<Rightarrow> string \<Rightarrow> string" where
  "first_truthy [] fallback = fallback"
| "first_truthy (x # xs) fallback =
     (case x of None \<Rightarrow> first_truthy xs fallback
      | Some s \<Rightarrow> if s = [] then first_truthy xs fallback else s)"

text \<open>\<^verbatim>\<open>alert.properties || alert\<close>\<close>

definition alertProperties :: "alert \<Rightarrow> alert_fields" where
  "alertProperties a =
     (case properties a of Some p \<Rightarrow> p | None \<Rightarrow> alert_fields.truncate a)"

text \<open>
  An element built for one alert: its title, its description cut to \<open>limit\<close> characters,
  and the severity it prints, if any (with the lower-case class name of the card).
\<close>

record alert_item =
  item_title :: string
  item_description :: string
  item_severity :: "string option"
  item_severity_class :: "string option"

definition alertElement :: "nat \<Rightarrow> bool \<Rightarrow> alert \<Rightarrow> alert_item" where
  "alertElement limit onCard a =
     (let p = alertProperties a;
          d = first_truthy [alert_description p, instruction p, summary p]
                ''Check local weather services for details.'';
          sev = (case severity p of None \<Rightarrow> None
                 | Some s \<Rightarrow> if s = [] then None else Some s)
      in \<lparr> item_title = first_truthy [headline p, event p, title p] ''Weather Alert'',
           item_description = (if length d > limit then take limit d @ ''...'' else d),
           item_severity = sev,
           item_severity_class = (if onCard then map_option toLowerCase sev else None) \<rparr>)"

text \<open>The filter of the banner: \<^verbatim>\<open>alert.properties?.severity?.toLowerCase()\<close>.\<close>

definition isSevere :: "alert \<Rightarrow> bool" where
  "isSevere a =
     (let sev = (case properties a of None \<Rightarrow> None
                 | Some p \<Rightarrow> map_option toLowerCase (severity p))
      in sev = Some ''severe'' \<or> sev = Some ''extreme'' \<or> sev = Some ''critical'')"

definition severeAlerts :: "alert list \<Rightarrow> alert list" where
  "severeAlerts as = filter isSevere as"

text \<open>
  The alerts card lists every alert (empty: the "No active weather alerts" paragraph);
  the banner is shown (\<open>Some\<close>) with the severe alerts when there is one, hidden otherwise.
\<close>

record alerts_display =
  alertsCardContent :: "alert_item list"
  alertsBanner :: "alert_item list option"

definition updateAlertsDisplay :: "alert list \<Rightarrow> alerts_display" where
  "updateAlertsDisplay as =
     \<lparr> alertsCardContent = (if length as = 0 then [] else map (alertElement 150 True) as),
       alertsBanner =
         (if length as = 0 then None
          else if length (severeAlerts as) > 0
               then Some (map (alertElement 200 False) (severeAlerts as))
               else None) \<rparr>"

section \<open>A refresh cycle\<close>





section \<open>Saving an observation\<close>







section \<open>The specification's notions\<close>











text \<open>
  The merged series as the specification describes them: the native series of Weatherbit
  if present, otherwise slots read off the arrays of Open-Meteo at each index, otherwise
  nothing; the prefix of length \<open>min(7, n)\<close>, or \<open>min(24, n)\<close>, of a source of length \<open>n\<close>.
\<close>

definition nth_opt :: "'v list option \<Rightarrow> nat \<Rightarrow> 'v option" where
  "nth_opt arr i =
     (case arr of None \<Rightarrow> None | Some xs \<Rightarrow> if i < length xs then Some (xs ! i) else None)"

definition series_length :: "'v series \<Rightarrow> nat" where
  "series_length d = (case d ''time'' of None \<Rightarrow> 0 | Some ts \<Rightarrow> length ts)"

definition derived_daily_slot :: "'v series \<Rightarrow> nat \<Rightarrow> 'v daily_slot" where
  "derived_daily_slot d i =
     \<lparr> dy_date = nth_opt (d ''time'') i,
       dy_max_temp = nth_opt (d ''temperature_2m_max'') i,
       dy_min_temp = nth_opt (d ''temperature_2m_min'') i,
       dy_weather_code = nth_opt (d ''weather_code'') i,
       dy_precipitation_sum = nth_opt (d ''precipitation_sum'') i,
       dy_wind_speed_max = nth_opt (d ''wind_speed_10m_max'') i,
       dy_uv_index_max = nth_opt (d ''uv_index_max'') i,
       dy_precipitation_probability_max = nth_opt (d ''precipitation_probability_max'') i \<rparr>"

definition derived_hourly_slot :: "'v series \<Rightarrow> nat \<Rightarrow> 'v hourly_slot" where
  "derived_hourly_slot h i =
     \<lparr> hr_time = nth_opt (h ''time'') i,
       hr_temp = nth_opt (h ''temperature_2m'') i,
       hr_feels_like = nth_opt (h ''apparent_temperature'') i,
       hr_humidity = nth_opt (h ''relative_humidity_2m'') i,
       hr_precipitation_prob = nth_opt (h ''precipitation_probability'') i,
       hr_weather_code = nth_opt (h ''weather_code'') i,
       hr_wind_speed = nth_opt (h ''wind_speed_10m'') i,
       hr_uv_index = nth_opt (h ''uv_index'') i \<rparr>"

definition native_daily :: "('w, 'v) results \<Rightarrow> 'w list option" where
  "native_daily rs =
     (case weatherbitResult rs of Fulfilled wb \<Rightarrow> wb_value_daily wb | Rejected \<Rightarrow> None)"

definition native_hourly :: "('w, 'v) results \<Rightarrow> 'w list option" where
  "native_hourly rs =
     (case weatherbitResult rs of Fulfilled wb \<Rightarrow> wb_value_hourly wb | Rejected \<Rightarrow> None)"

definition tertiary_daily :: "('w, 'v) results \<Rightarrow> 'v series option" where
  "tertiary_daily rs =
     (case openMeteoResult rs of Fulfilled om \<Rightarrow> om_daily (om_value_data om)
      | Rejected \<Rightarrow> None)"

definition tertiary_hourly :: "('w, 'v) results \<Rightarrow> 'v series option" where
  "tertiary_hourly rs =
     (case openMeteoResult rs of Fulfilled om \<Rightarrow> om_hourly (om_value_data om)
      | Rejected \<Rightarrow> None)"

definition merged_daily :: "('w, 'v) results \<Rightarrow> ('w, 'v daily_slot) forecast_entry list" where
  "merged_daily rs =
     (case native_daily rs of
        Some ds \<Rightarrow> map Native (take (min 7 (length ds)) ds)
      | None \<Rightarrow>
          (case tertiary_daily rs of
             Some d \<Rightarrow> map (\<lambda>i. Derived (derived_daily_slot d i)) [0 ..< min 7 (series_length d)]
           | None \<Rightarrow> []))"

definition merged_hourly :: "('w, 'v) results \<Rightarrow> ('w, 'v hourly_slot) forecast_entry list" where
  "merged_hourly rs =
     (case native_hourly rs of
        Some hs \<Rightarrow> map Native (take (min 24 (length hs)) hs)
      | None \<Rightarrow>
          (case tertiary_hourly rs of
             Some h \<Rightarrow> map (\<lambda>i. Derived (derived_hourly_slot h i)) [0 ..< min 24 (series_length h)]
           | None \<Rightarrow> []))"

definition daily_source_length :: "('w, 'v) results \<Rightarrow> nat" where
  "daily_source_length rs =
     (case native_daily rs of Some ds \<Rightarrow> length ds
      | None \<Rightarrow> (case tertiary_daily rs of Some d \<Rightarrow> series_length d | None \<Rightarrow> 0))"

definition hourly_source_length :: "('w, 'v) results \<Rightarrow> nat" where
  "hourly_source_length rs =
     (case native_hourly rs of Some hs \<Rightarrow> length hs
      | None \<Rightarrow> (case tertiary_hourly rs of Some h \<Rightarrow> series_length h | None \<Rightarrow> 0))"

section \<open>Sample inputs\<close>

definition sample_observation :: "string \<Rightarrow> rat \<Rightarrow> observation" where
  "sample_observation src t =
     \<lparr> temperature = Num t, feelsLike = Num t, humidity = Num 50, pressure = Num 1013,
       windSpeed = Num 10, windDirection = Num 180, visibility = Num 10, uvIndex = Num 0,
       cloudCover = Num 20, precipitationChance = Num 0, description = Some ''clear sky'',
       icon = ''sun'', source = src, timestamp = Num 0 \<rparr>"


definition sample_wb_payload :: wb_payload where
  "sample_wb_payload =
     \<lparr> temp = Num 20, app_temp = Num 19, rh = Num 60, pres = Num 1010, wind_spd = Num 5,
       wind_dir = Num 90, vis = Num 16, uv = Undefined, wb_clouds = Num 40,
       wb_weather = Some \<lparr> wb_description = Some ''Scattered clouds'', wb_code = Some 802 \<rparr> \<rparr>"

definition sample_om_current :: om_current where
  "sample_om_current =
     \<lparr> temperature_2m = Num 22, apparent_temperature = Num 21, relative_humidity_2m = Num 55,
       pressure_msl = Num 1012, wind_speed_10m = Num 12, wind_direction_10m = Num 100,
       cloud_cover = Num 30, precipitation = Undefined, weather_code = Some 2 \<rparr>"

definition sample_series :: "nat \<Rightarrow> nat series" where
  "sample_series n =
     map_of (map (\<lambda>k. (k, [0 ..< n]))
       [''time'', ''temperature_2m'', ''apparent_temperature'', ''relative_humidity_2m'',
        ''precipitation_probability'', ''weather_code'', ''wind_speed_10m'', ''uv_index'',
        ''temperature_2m_max'', ''temperature_2m_min'', ''precipitation_sum'',
        ''wind_speed_10m_max'', ''uv_index_max'', ''precipitation_probability_max''])"


definition sample_weatherbit :: "nat list option \<Rightarrow> nat list option \<Rightarrow> nat wb_value" where
  "sample_weatherbit ds hs =
     \<lparr> wb_value_current = Some sample_wb_payload, wb_value_daily = ds,
       wb_value_hourly = hs \<rparr>"

definition sample_open_meteo ::
  "nat series option \<Rightarrow> nat series option \<Rightarrow> nat om_value" where
  "sample_open_meteo hourly_arrays daily_arrays =
     \<lparr> om_value_data = \<lparr> om_current = Some sample_om_current, om_hourly = hourly_arrays,
                          om_daily = daily_arrays \<rparr> \<rparr>"

definition open_meteo_air_quality :: "rat \<Rightarrow> air_quality" where
  "open_meteo_air_quality a =
     \<lparr> aq_source = ''open-meteo'', aq_data = Some \<lparr> aq_main = None, us_aqi = Num a \<rparr> \<rparr>"

definition openweathermap_air_quality :: "rat \<Rightarrow> air_quality" where
  "openweathermap_air_quality a =
     \<lparr> aq_source = ''openweathermap'',
       aq_data = Some \<lparr> aq_main = Some \<lparr> aqi = Num a \<rparr>, us_aqi = Undefined \<rparr> \<rparr>"

text \<open>An alert with its fields under \<open>properties\<close>, and one with them at the top level.\<close>

definition feature_alert :: "string \<Rightarrow> alert" where
  "feature_alert sev =
     \<lparr> headline = None, event = None, title = None, alert_description = None,
       instruction = None, summary = None, severity = None,
       properties = Some \<lparr> headline = None, event = Some ''Heat Advisory'', title = None,
                           alert_description = None, instruction = None, summary = None,
                           severity = Some sev \<rparr> \<rparr>"

definition flat_alert :: "string \<Rightarrow> alert" where
  "flat_alert sev =
     \<lparr> headline = None, event = None, title = Some ''Flood Warning'',
       alert_description = None, instruction = None, summary = None,
       severity = Some sev, properties = None \<rparr>"

text \<open>
  The outcome of a cycle in which OpenWeatherMap failed, with the given outcomes of the two
  other weather providers; air quality and alerts succeeded.
\<close>

definition cycle_results ::
  "nat wb_value settled \<Rightarrow> nat om_value settled \<Rightarrow> (nat, nat) results" where
  "cycle_results wb om =
     \<lparr> owmResult = Rejected, weatherbitResult = wb, openMeteoResult = om,
       aqResult = Fulfilled (open_meteo_air_quality 42),
       alertsResult = Fulfilled \<lparr> alerts_value_alerts = [feature_alert ''Severe''] \<rparr> \<rparr>"

text \<open>The \<open>weatherData\<close> the constructor sets, in an application that has a location.\<close>

definition initial_weather_data :: "('w, 'v) weather_data" where
  "initial_weather_data =
     \<lparr> current = Null, hourly = [], daily = [], alerts = [], airQuality = None \<rparr>"


section \<open>Aggregation\<close>

























section \<open>Normalization\<close>

text \<open>
  C3 (amended). Two normalizations of the same payload give the same outcome but for the
  \<open>timestamp\<close>: the Weatherbit and Open-Meteo normalizers set it from the clock at the
  call, so the records are identical when both calls read the same clock value, and differ
  in \<open>timestamp\<close> alone otherwise. The OpenWeatherMap normalizer reads no clock; its
  \<open>timestamp\<close> is the payload's \<open>dt\<close>.
\<close>

theorem normalized_twice:
  "normalizeWeatherbitData t2 d =
      map_sum id (\<lambda>r. r\<lparr> timestamp := Num (t2 / 1000) \<rparr>) (normalizeWeatherbitData t1 d)
   \<and> normalizeOpenMeteoData t2 p =
      map_sum id (\<lambda>r. r\<lparr> timestamp := Num (t2 / 1000) \<rparr>) (normalizeOpenMeteoData t1 p)
   \<and> map_sum id timestamp (normalizeOpenWeatherMapData q) =
      map_sum id (\<lambda>r. dt q) (normalizeOpenWeatherMapData q)"
  by (simp add: normalizeWeatherbitData_def normalizeOpenMeteoData_def
      normalizeOpenWeatherMapData_def split: option.splits list.splits)

theorem normalized_twice_witness:
  "normalizeWeatherbitData 1000 (Some sample_wb_payload) =
      map_sum id (\<lambda>r. r\<lparr> timestamp := Num 1 \<rparr>)
        (normalizeWeatherbitData 0 (Some sample_wb_payload))
   \<and> normalizeWeatherbitData 7 (Some sample_wb_payload) =
       map_sum id (\<lambda>r. r\<lparr> timestamp := Num (7 / 1000) \<rparr>)
         (normalizeWeatherbitData 7 (Some sample_wb_payload))"
  using normalized_twice [of 1000 "Some sample_wb_payload" 0, THEN conjunct1]
    normalized_twice [of 7 "Some sample_wb_payload" 7, THEN conjunct1]
  by simp

text \<open>The same Weatherbit payload normalized at clock readings 0 and 1000 ms.\<close>

theorem normalized_twice_counterexample:
  "normalizeWeatherbitData 0 (Some sample_wb_payload)
     \<noteq> normalizeWeatherbitData 1000 (Some sample_wb_payload)"
  by (simp add: normalizeWeatherbitData_def sample_wb_payload_def)




section \<open>A cycle without weather\<close>










section \<open>Health tips\<close>

lemma gt_js_small: "x \<le> 5 \<Longrightarrow> \<not> gt_js (Num x) 100"
  by (simp add: gt_js_def)

text \<open>
  C6. The air-quality rule compares the value it reads with 100 whatever its scale. An
  OpenWeatherMap reading is an index from 1 to 5 (\<open>updateAirQualityDisplay\<close> labels it
  through \<open>CONFIG.AQI_LEVELS\<close>), so for that source the tip is never appended.
\<close>

theorem air_quality_rule_on_five_point_scale:
  assumes "aq_source aq = ''openweathermap''"
    and "aq_data aq = Some d" and "aq_main d = Some m" and "aqi m = Num x" and "x \<le> 5"
    and "fields_of w = Some f"
  shows "\<exists>tips. updateHealthTips w (Some aq) = Inr (Some tips)
           \<and> PoorAirQualityTip \<notin> set tips"
  using assms gt_js_small [of x]
  by (simp add: updateHealthTips_def airQualityTips_def Let_def)

theorem air_quality_rule_on_five_point_scale_witness:
  "updateHealthTips (Single (sample_observation ''OpenWeatherMap'' 20))
       (Some (openweathermap_air_quality 5)) = Inr (Some [GreatWeatherTip])
   \<and> PoorAirQualityTip \<notin> set [GreatWeatherTip]
   \<and> map_sum id (map_option aqi_label)
         (updateAirQualityDisplay (Some (openweathermap_air_quality 5)))
       = Inr (Some ''Very Poor'')
   \<and> updateHealthTips (Single (sample_observation ''OpenWeatherMap'' 20))
       (Some (open_meteo_air_quality 151)) = Inr (Some [PoorAirQualityTip])"
proof -
  let ?w = "Single (sample_observation ''OpenWeatherMap'' 20)"
  have f: "fields_of ?w = Some (weather_fields.truncate (sample_observation ''OpenWeatherMap'' 20))"
    by (simp add: fields_of_def)
  from air_quality_rule_on_five_point_scale
    [of "openweathermap_air_quality 5" "\<lparr> aq_main = Some \<lparr> aqi = Num 5 \<rparr>, us_aqi = Undefined \<rparr>"
        "\<lparr> aqi = Num 5 \<rparr>" 5 ?w, OF _ _ _ _ _ f]
  obtain tips where t: "updateHealthTips ?w (Some (openweathermap_air_quality 5)) = Inr (Some tips)"
    and "PoorAirQualityTip \<notin> set tips"
    by (auto simp: openweathermap_air_quality_def)
  have "updateHealthTips ?w (Some (openweathermap_air_quality 5)) = Inr (Some [GreatWeatherTip])"
    by (simp add: updateHealthTips_def airQualityTips_def fields_of_def Let_def
        weather_fields.truncate_def sample_observation_def openweathermap_air_quality_def
        orZero_def gt_js_def lt_js_def)
  moreover have "map_sum id (map_option aqi_label)
         (updateAirQualityDisplay (Some (openweathermap_air_quality 5)))
       = Inr (Some ''Very Poor'')"
    by (simp add: updateAirQualityDisplay_def openweathermap_air_quality_def aq_elements_def
        AQI_LEVELS_def)
  moreover have "updateHealthTips ?w (Some (open_meteo_air_quality 151))
       = Inr (Some [PoorAirQualityTip])"
    by (simp add: updateHealthTips_def airQualityTips_def fields_of_def Let_def
        weather_fields.truncate_def sample_observation_def open_meteo_air_quality_def
        orZero_def gt_js_def lt_js_def)
  ultimately show ?thesis using t by simp
qed

section \<open>Forecast series\<close>

lemma take_min_length: "take (min n (length xs)) xs = take n xs"
  by (simp add: min_def)

lemma at_index_Inr: "at_index arr i = Inr v \<Longrightarrow> v = nth_opt arr i"
  by (auto simp: at_index_def nth_opt_def split: option.splits)

lemma daily_entry_Inr: "daily_entry d i = Inr s \<Longrightarrow> s = derived_daily_slot d i"
  by (auto simp: daily_entry_def derived_daily_slot_def split: sum.splits dest!: at_index_Inr)

lemma hourly_entry_Inr: "hourly_entry h i = Inr s \<Longrightarrow> s = derived_hourly_slot h i"
  by (auto simp: hourly_entry_def derived_hourly_slot_def split: sum.splits dest!: at_index_Inr)

lemma push_each_Inr:
  assumes "push_each f is = Inr xs" and "\<And>i x. f i = Inr x \<Longrightarrow> x = g i"
  shows "xs = map g is"
  using assms
  by (induction "is" arbitrary: xs) (auto split: sum.splits)

lemma processOpenMeteoDaily_Inr:
  assumes "processOpenMeteoDaily data = Inr slots"
  shows "\<exists>d. om_daily data = Some d
           \<and> slots = map (derived_daily_slot d) [0 ..< min 7 (series_length d)]"
  using assms
  by (auto simp: processOpenMeteoDaily_def series_length_def split: option.splits
      dest!: push_each_Inr [where g = "derived_daily_slot _", OF _ daily_entry_Inr])

lemma processOpenMeteoHourly_Inr:
  assumes "processOpenMeteoHourly data = Inr slots"
  shows "\<exists>h. om_hourly data = Some h
           \<and> slots = map (derived_hourly_slot h) [0 ..< min 24 (series_length h)]"
  using assms
  by (auto simp: processOpenMeteoHourly_def series_length_def split: option.splits
      dest!: push_each_Inr [where g = "derived_hourly_slot _", OF _ hourly_entry_Inr])

lemma combineDaily_Inr:
  assumes "combineDaily rs = Inr ds"
  shows "ds = merged_daily rs"
  using assms
  by (auto simp: combineDaily_def merged_daily_def native_daily_def tertiary_daily_def Let_def
      take_min_length
      split: settled.splits option.splits sum.splits dest!: processOpenMeteoDaily_Inr)

lemma combineHourly_Inr:
  assumes "combineHourly rs = Inr hs"
  shows "hs = merged_hourly rs"
  using assms
  by (auto simp: combineHourly_def merged_hourly_def native_hourly_def tertiary_hourly_def Let_def
      take_min_length
      split: settled.splits option.splits sum.splits dest!: processOpenMeteoHourly_Inr)

lemma length_merged_daily: "length (merged_daily rs) = min 7 (daily_source_length rs)"
  by (simp add: merged_daily_def daily_source_length_def split: option.splits)

lemma length_merged_hourly: "length (merged_hourly rs) = min 24 (hourly_source_length rs)"
  by (simp add: merged_hourly_def hourly_source_length_def split: option.splits)

lemma processEnsembleForecasts_None:
  assumes "processEnsembleForecasts rs wd = (wd', None)"
  shows "combineHourly rs = Inr (hourly wd') \<and> combineDaily rs = Inr (daily wd')"
  using assms
  by (auto simp: processEnsembleForecasts_def Let_def split: sum.splits)

lemma processEnsembleForecasts_Some:
  assumes "processEnsembleForecasts rs wd = (wd', Some e)"
  shows "daily wd' = []"
  using assms
  by (auto simp: processEnsembleForecasts_def Let_def split: sum.splits)

text \<open>
  C7 (amended). When the forecast merge completes, the daily series is Weatherbit's native
  one if present, otherwise the slots derived from Open-Meteo's arrays, otherwise empty,
  and likewise the hourly series; each is the prefix of its source of length
  \<open>min(7, n)\<close>, or \<open>min(24, n)\<close>. The merge raises when slots are to be derived from an
  Open-Meteo payload without the arrays; the daily series is then empty, whatever
  Weatherbit returned.
\<close>

theorem forecasts_by_priority_and_prefix:
  "(case snd (processEnsembleForecasts rs wd) of
      None \<Rightarrow>
        daily (fst (processEnsembleForecasts rs wd)) = merged_daily rs
        \<and> length (daily (fst (processEnsembleForecasts rs wd))) = min 7 (daily_source_length rs)
        \<and> hourly (fst (processEnsembleForecasts rs wd)) = merged_hourly rs
        \<and> length (hourly (fst (processEnsembleForecasts rs wd)))
            = min 24 (hourly_source_length rs)
    | Some e \<Rightarrow> daily (fst (processEnsembleForecasts rs wd)) = [])"
proof (cases "snd (processEnsembleForecasts rs wd)")
  case None
  then have "processEnsembleForecasts rs wd = (fst (processEnsembleForecasts rs wd), None)"
    by (metis prod.collapse)
  from processEnsembleForecasts_None [OF this]
  have "hourly (fst (processEnsembleForecasts rs wd)) = merged_hourly rs"
    and "daily (fst (processEnsembleForecasts rs wd)) = merged_daily rs"
    by (simp_all add: combineHourly_Inr combineDaily_Inr)
  with None show ?thesis
    by (simp add: length_merged_daily length_merged_hourly)
next
  case (Some e)
  then have "processEnsembleForecasts rs wd = (fst (processEnsembleForecasts rs wd), Some e)"
    by (metis prod.collapse)
  from processEnsembleForecasts_Some [OF this] Some show ?thesis
    by simp
qed

lemma forecasts_complete_with_native_series:
  assumes "native_hourly rs = Some hs" and "native_daily rs = Some ds"
  shows "snd (processEnsembleForecasts rs wd) = None"
  using assms
  by (auto simp: processEnsembleForecasts_def combineHourly_def combineDaily_def Let_def
      native_hourly_def native_daily_def split: settled.splits)

theorem forecasts_by_priority_and_prefix_witness:
  "snd (processEnsembleForecasts
          (cycle_results (Fulfilled (sample_weatherbit (Some [0 ..< 10]) None))
             (Fulfilled (sample_open_meteo (Some (sample_series 3)) None)))
          initial_weather_data) = None
   \<and> daily (fst (processEnsembleForecasts
          (cycle_results (Fulfilled (sample_weatherbit (Some [0 ..< 10]) None))
             (Fulfilled (sample_open_meteo (Some (sample_series 3)) None)))
          initial_weather_data)) = map Native [0, 1, 2, 3, 4, 5, 6]
   \<and> length (hourly (fst (processEnsembleForecasts
          (cycle_results (Fulfilled (sample_weatherbit (Some [0 ..< 10]) None))
             (Fulfilled (sample_open_meteo (Some (sample_series 3)) None)))
          initial_weather_data))) = 3"
proof -
  let ?rs = "cycle_results (Fulfilled (sample_weatherbit (Some [0 ..< 10]) None))
               (Fulfilled (sample_open_meteo (Some (sample_series 3)) None))"
  let ?p = "processEnsembleForecasts ?rs (initial_weather_data :: (nat, nat) weather_data)"
  have n: "snd ?p = None"
    by code_simp
  note th = forecasts_by_priority_and_prefix [of ?rs "initial_weather_data :: (nat, nat) weather_data"]
  have c: "daily (fst ?p) = merged_daily ?rs
      \<and> length (daily (fst ?p)) = min 7 (daily_source_length ?rs)
      \<and> hourly (fst ?p) = merged_hourly ?rs
      \<and> length (hourly (fst ?p)) = min 24 (hourly_source_length ?rs)"
    using th unfolding n option.case .
  from c have d: "daily (fst ?p) = merged_daily ?rs" by blast
  from c have l: "length (hourly (fst ?p)) = min 24 (hourly_source_length ?rs)" by blast
  have md: "merged_daily ?rs = map Native [0, 1, 2, 3, 4, 5, 6]"
    by code_simp
  have hl: "hourly_source_length ?rs = 3"
    by code_simp
  show ?thesis
    using n by (simp only: d l md hl) simp
qed

text \<open>
  Weatherbit has ten native daily entries and no hourly ones, and the Open-Meteo payload
  has no \<open>hourly\<close> object: deriving the hourly slots raises, and the daily series is
  left empty.
\<close>

theorem hourly_failure_empties_daily_counterexample:
  "map_option length (native_daily
      (cycle_results (Fulfilled (sample_weatherbit (Some [0 ..< 10]) None))
         (Fulfilled (sample_open_meteo None (Some (sample_series 10)))))) = Some 10
   \<and> daily (fst (processEnsembleForecasts
        (cycle_results (Fulfilled (sample_weatherbit (Some [0 ..< 10]) None))
           (Fulfilled (sample_open_meteo None (Some (sample_series 10)))))
        (initial_weather_data :: (nat, nat) weather_data))) = []
   \<and> snd (processEnsembleForecasts
        (cycle_results (Fulfilled (sample_weatherbit (Some [0 ..< 10]) None))
           (Fulfilled (sample_open_meteo None (Some (sample_series 10)))))
        (initial_weather_data :: (nat, nat) weather_data)) = Some TypeError"
  by (simp add: native_daily_def cycle_results_def sample_weatherbit_def sample_open_meteo_def
      processEnsembleForecasts_def combineHourly_def processOpenMeteoHourly_def
      initial_weather_data_def)

section \<open>Alerts\<close>



text \<open>
  C10. An alert of the list without \<open>properties\<close> is shown on the alerts card, its fields
  read from the alert itself (its severity too), and is never among the severe alerts.
\<close>

theorem top_level_severity_not_severe:
  assumes "a \<in> set as" and "properties a = None"
  shows "a \<notin> set (severeAlerts as)
    \<and> alertElement 150 True a \<in> set (alertsCardContent (updateAlertsDisplay as))
    \<and> alertProperties a = alert_fields.truncate a
    \<and> item_severity (alertElement 150 True a) =
        (case severity a of None \<Rightarrow> None | Some s \<Rightarrow> if s = [] then None else Some s)"
proof -
  from assms(1) have ne: "as \<noteq> []" by auto
  then have "alertElement 150 True a \<in> set (alertsCardContent (updateAlertsDisplay as))"
    using assms(1) by (simp add: updateAlertsDisplay_def)
  moreover have "a \<notin> set (severeAlerts as)"
    using assms(2) by (simp add: severeAlerts_def isSevere_def)
  moreover have p: "alertProperties a = alert_fields.truncate a"
    using assms(2) by (simp add: alertProperties_def)
  moreover have "item_severity (alertElement 150 True a) =
        (case severity a of None \<Rightarrow> None | Some s \<Rightarrow> if s = [] then None else Some s)"
    by (simp add: alertElement_def p Let_def alert_fields.truncate_def)
  ultimately show ?thesis by blast
qed

theorem top_level_severity_not_severe_witness:
  "flat_alert ''severe'' \<in> set [flat_alert ''severe'']
   \<and> properties (flat_alert ''severe'') = None
   \<and> flat_alert ''severe'' \<notin> set (severeAlerts [flat_alert ''severe''])
   \<and> item_severity (alertElement 150 True (flat_alert ''severe'')) = Some ''severe''
   \<and> alertsBanner (updateAlertsDisplay [flat_alert ''severe'']) = None"
proof -
  have m: "flat_alert ''severe'' \<in> set [flat_alert ''severe'']" by simp
  have p: "properties (flat_alert ''severe'') = None"
    by (simp add: flat_alert_def)
  note th = top_level_severity_not_severe [OF m p]
  from th have n: "flat_alert ''severe'' \<notin> set (severeAlerts [flat_alert ''severe''])"
    by blast
  from th have "item_severity (alertElement 150 True (flat_alert ''severe'')) = Some ''severe''"
    by (simp add: flat_alert_def)
  moreover from n have "severeAlerts [flat_alert ''severe''] = []"
    by (simp add: severeAlerts_def split: if_splits)
  then have "alertsBanner (updateAlertsDisplay [flat_alert ''severe'']) = None"
    by (simp add: updateAlertsDisplay_def)
  ultimately show ?thesis using m p n by blast
qed

section \<open>Saving an observation does not return\<close>






end
